theory Spec2Isabelle
  imports Main "HOL-Library.Word"
begin

unbundle bit_operations_syntax

section \<open>Machine integers, byte buffers and files\<close>

text \<open>
  The scanner of \<^verbatim>\<open>executor/scanner.go\<close> works on byte slices, on \<^verbatim>\<open>int32\<close> byte counts and on
  \<^verbatim>\<open>int64\<close> file offsets. Bytes are \<open>8 word\<close>; the 64-bit slot index is a \<open>64 word\<close>
  read through \<open>sint\<close> (the source converts it with \<^verbatim>\<open>int64(...)\<close>). Counts and offsets are
  \<open>int\<close>; every \<^verbatim>\<open>int32\<close> operation of the source that can leave the 32-bit range
  is wrapped by \<open>i32\<close>. The \<^verbatim>\<open>int64\<close> offsets are left unwrapped.
\<close>

type_synonym byte = "8 word"
type_synonym bytes = "byte list"

definition i32 :: "int \<Rightarrow> int" where
  "i32 x = sint (word_of_int x :: 32 word)"

definition MaxInt32 :: int where
  "MaxInt32 = 2147483647"

definition RecordsPerRead :: int where
  "RecordsPerRead = 2000"

text \<open>Go's integer division truncates towards zero.\<close>

definition quot :: "int \<Rightarrow> int \<Rightarrow> int" where
  "quot a b = sgn a * sgn b * (\<bar>a\<bar> div \<bar>b\<bar>)"

text \<open>
  A run of the source either returns or panics (a slice expression out of range, an
  integer division by zero, a negative \<^verbatim>\<open>make\<close>), or, for the reverse scan, keeps
  looping; \<open>OutOfFuel\<close> is the value of a loop that was cut off.
\<close>

datatype 'a outcome = Panicked | OutOfFuel | Returned 'a

datatype error =
    ReverseRequiresLimit
  | RecordLengthNotConsistent
  | ShortRead int int
  | OpenError string
  | SeekError
  | SecondStageError string

text \<open>The slice expression \<^verbatim>\<open>s[lo:hi]\<close>; \<open>None\<close> is the run-time panic.\<close>

definition slice :: "bytes \<Rightarrow> int \<Rightarrow> int \<Rightarrow> bytes option" where
  "slice s lo hi =
     (if 0 \<le> lo \<and> lo \<le> hi \<and> hi \<le> int (length s)
      then Some (take (nat (hi - lo)) (drop (nat lo) s)) else None)"

definition sliceFrom :: "bytes \<Rightarrow> int \<Rightarrow> bytes option" where
  "sliceFrom s lo = slice s lo (int (length s))"

text \<open>\<^verbatim>\<open>binary.LittleEndian.Uint64\<close> and \<^verbatim>\<open>PutUint64\<close>; both panic on fewer than 8 bytes.\<close>

fun le_uint :: "bytes \<Rightarrow> 64 word" where
  "le_uint [] = 0"
| "le_uint (b # bs) = ucast b OR push_bit 8 (le_uint bs)"

definition Uint64 :: "bytes \<Rightarrow> 64 word option" where
  "Uint64 b = (if length b < 8 then None else Some (le_uint (take 8 b)))"

definition le_bytes :: "64 word \<Rightarrow> bytes" where
  "le_bytes v =
     [ucast v, ucast (drop_bit 8 v), ucast (drop_bit 16 v), ucast (drop_bit 24 v),
      ucast (drop_bit 32 v), ucast (drop_bit 40 v), ucast (drop_bit 48 v),
      ucast (drop_bit 56 v)]"

text \<open>\<^verbatim>\<open>PutUint64(b[idxpos:], v)\<close>, returning the whole of \<open>b\<close> after the write.\<close>

definition PutUint64 :: "bytes \<Rightarrow> nat \<Rightarrow> 64 word \<Rightarrow> bytes option" where
  "PutUint64 b idxpos v =
     (if length b < idxpos + 8 then None
      else Some (take idxpos b @ le_bytes v @ drop (idxpos + 8) b))"

text \<open>\<^verbatim>\<open>copy(dst[at:], src)\<close>: overwrites \<open>min (len dst - at) (len src)\<close> bytes.\<close>

definition copyAt :: "bytes \<Rightarrow> nat \<Rightarrow> bytes \<Rightarrow> bytes" where
  "copyAt dst at src =
     (let n = min (length dst - at) (length src)
      in take at dst @ take n src @ drop (at + n) dst)"

text \<open>
  An open file: its contents and the cursor. \<open>Read\<close> fills the front of the buffer with
  as many bytes as the file still has (at most the buffer's length) and leaves the rest
  of the buffer as it was; the source ignores the error of \<^verbatim>\<open>f.Read\<close>. A seek to a
  negative position fails and leaves the cursor where it was.
\<close>

record osFile =
  fdata :: bytes
  fpos :: nat

definition Read :: "osFile \<Rightarrow> bytes \<Rightarrow> osFile \<times> bytes \<times> int" where
  "Read f buffer =
     (let chunk = take (length buffer) (drop (fpos f) (fdata f));
          n = length chunk
      in (f\<lparr>fpos := fpos f + n\<rparr>, chunk @ drop n buffer, int n))"

definition SeekSet :: "osFile \<Rightarrow> int \<Rightarrow> error + osFile" where
  "SeekSet f off = (if off < 0 then Inl SeekError else Inr (f\<lparr>fpos := nat off\<rparr>))"

definition SeekCur :: "osFile \<Rightarrow> int \<Rightarrow> error + osFile" where
  "SeekCur f off =
     (if int (fpos f) + off < 0 then Inl SeekError else Inr (f\<lparr>fpos := nat (int (fpos f) + off)\<rparr>))"

definition OpenFile :: "(string \<rightharpoonup> bytes) \<Rightarrow> string \<Rightarrow> error + osFile" where
  "OpenFile fs path =
     (case fs path of None \<Rightarrow> Inl (OpenError path)
      | Some d \<Rightarrow> Inr \<lparr>fdata = d, fpos = 0\<rparr>)"

lemma Read_length_buffer: "Read f buffer = (f', buffer', n) \<Longrightarrow> length buffer' = length buffer"
  by (auto simp: Read_def Let_def)

lemma Read_fdata: "Read f buffer = (f', buffer', n) \<Longrightarrow> fdata f' = fdata f"
  by (auto simp: Read_def Let_def)

lemma Read_fpos: "Read f buffer = (f', buffer', n) \<Longrightarrow> int (fpos f') = int (fpos f) + n"
  by (auto simp: Read_def Let_def)

lemma Read_n:
  "Read f buffer = (f', buffer', n) \<Longrightarrow> n = int (min (length buffer) (length (fdata f) - fpos f))"
  by (auto simp: Read_def Let_def)

lemma Read_advance:
  "Read f buffer = (f', buffer', n) \<Longrightarrow> n \<noteq> 0
     \<Longrightarrow> length (fdata f') - fpos f' < length (fdata f) - fpos f"
  by (cases buffer) (auto simp: Read_def Let_def min_def split: if_splits)

section \<open>The plan\<close>

datatype EnumRecordType = FIXED | VARIABLE

datatype DirectionEnum = UNSET | FIRST | LAST

record TimeBucketInfo =
  Year :: int
  Path :: string
  GetTimeframe :: int
  GetRecordLength :: int
  GetRecordType :: EnumRecordType
  GetVariableRecordLength :: int
  GetIntervals :: int

record ioFilePlan =
  tbi :: TimeBucketInfo
  Offset :: int
  Length :: int
  FullPath :: string
  BaseTime :: int
  seekingLast :: bool

definition GetFileYear :: "ioFilePlan \<Rightarrow> int" where
  "GetFileYear iofp = Year (tbi iofp)"

record RowLimit =
  Number :: int
  Direction :: DirectionEnum

record ioplan =
  FilePlan :: "ioFilePlan list"
  PrevFilePlan :: "ioFilePlan list"
  RecordLen :: int
  RecordType :: EnumRecordType
  VariableRecordLen :: int
  Limit :: RowLimit
  TimeQuals :: "(int \<Rightarrow> bool) list"

record bufferMeta =
  bmFullPath :: string
  Data :: bytes
  VarRecLen :: int
  Intervals :: int

record DateRange =
  Start :: int
  End :: int
  StartYear :: int
  EndYear :: int

record QualifiedFile =
  Key :: string
  File :: TimeBucketInfo

record ParseResult =
  Range :: DateRange
  prLimit :: RowLimit
  prTimeQuals :: "(int \<Rightarrow> bool) list"

text \<open>
  The functions of \<^verbatim>\<open>utils/io\<close>, the clock and the second-stage reader that the scanner
  calls are not part of \<^verbatim>\<open>scanner.go\<close>; they are parameters of the model. \<open>IndexToTime\<close>
  stands for \<^verbatim>\<open>IndexToTime(index, timeframe, year).Unix()\<close>, \<open>YearStart\<close> for
  \<^verbatim>\<open>time.Date(year, January, 1, 0, 0, 0, 0, Timezone).Unix()\<close> and \<open>readSecondStage\<close>
  for the method of that name, which returns a buffer and an error.
\<close>

record env =
  Headersize :: int
  FileSize :: "int \<Rightarrow> int \<Rightarrow> int \<Rightarrow> int"
  EpochToOffset :: "int \<Rightarrow> int \<Rightarrow> int \<Rightarrow> int"
  IndexToTime :: "int \<Rightarrow> int \<Rightarrow> int \<Rightarrow> int"
  YearStart :: "int \<Rightarrow> int"
  readSecondStage :: "bufferMeta list \<Rightarrow> bytes option \<times> string option"

section \<open>The packing reader\<close>

fun checkTimeQuals :: "(int \<Rightarrow> bool) list \<Rightarrow> int \<Rightarrow> bool" where
  "checkTimeQuals [] epoch = True"
| "checkTimeQuals (timeQual # rest) epoch =
     (if \<not> timeQual epoch then False else checkTimeQuals rest epoch)"

text \<open>
  What one invocation of the packing reader changes besides the file cursor and the
  scratch buffer: the packed output, the read-hint cache (\<^verbatim>\<open>readhint.SetLastKnown\<close>,
  modelled from the spec as a map from path to offset) and the one-shot flag of the
  segment.
\<close>

record pstate =
  packedBuffer :: bytes
  lastKnown :: "string \<rightharpoonup> int"
  seeking :: bool

text \<open>
  The body of the inner loop for slot \<open>i\<close> of the chunk in \<open>buffer\<close>; \<open>cur\<close> is the
  file cursor after the chunk was read and \<open>nn\<close> the (possibly clipped) byte count.
\<close>

definition packSlot ::
  "env \<Rightarrow> ioplan \<Rightarrow> ioFilePlan \<Rightarrow> bytes \<Rightarrow> int \<Rightarrow> int \<Rightarrow> int \<Rightarrow> pstate \<Rightarrow> pstate outcome" where
  "packSlot e plan fp buffer cur nn i s =
     (let recordSize = RecordLen plan; curpos = i * recordSize in
      case sliceFrom buffer curpos of
        None \<Rightarrow> Panicked
      | Some b \<Rightarrow>
      (case Uint64 b of
        None \<Rightarrow> Panicked
      | Some w \<Rightarrow>
        if sint w \<noteq> 0 then
          (let index = IndexToTime e (sint w) (GetTimeframe (tbi fp)) (GetFileYear fp) in
           if \<not> checkTimeQuals (TimeQuals plan) index then Returned s
           else
             (let idxpos = length (packedBuffer s) in
              case slice buffer curpos (curpos + recordSize) of
                None \<Rightarrow> Panicked
              | Some r \<Rightarrow>
              (case PutUint64 (packedBuffer s @ r) idxpos (word_of_int index) of
                None \<Rightarrow> Panicked
              | Some b' \<Rightarrow>
                if seeking s
                then Returned (s\<lparr>packedBuffer := b',
                        lastKnown := (lastKnown s)(FullPath fp \<mapsto> cur - nn + i * recordSize),
                        seeking := False\<rparr>)
                else Returned (s\<lparr>packedBuffer := b'\<rparr>))))
        else Returned s))"

function packRecords ::
  "env \<Rightarrow> ioplan \<Rightarrow> ioFilePlan \<Rightarrow> bytes \<Rightarrow> int \<Rightarrow> int \<Rightarrow> int \<Rightarrow> int \<Rightarrow> pstate \<Rightarrow> pstate outcome" where
  "packRecords e plan fp buffer cur nn numToRead i s =
     (if i < numToRead then
        (case packSlot e plan fp buffer cur nn i s of
           Returned s' \<Rightarrow> packRecords e plan fp buffer cur nn numToRead (i + 1) s'
         | other \<Rightarrow> other)
      else Returned s)"
  by pat_completeness auto
termination
  by (relation "measure (\<lambda>(e, plan, fp, buffer, cur, nn, numToRead, i, s). nat (numToRead - i))") auto

declare packRecords.simps [simp del]

text \<open>
  The outer loop of \<^verbatim>\<open>packingReader\<close>. The result carries the error (if any), the state and
  the file and scratch buffer as the reader leaves them.
\<close>

function packingLoop ::
  "env \<Rightarrow> ioplan \<Rightarrow> ioFilePlan \<Rightarrow> int \<Rightarrow> int \<Rightarrow> osFile \<Rightarrow> bytes \<Rightarrow> pstate
     \<Rightarrow> (error option \<times> pstate \<times> osFile \<times> bytes) outcome" where
  "packingLoop e plan fp maxRead totalRead f buffer s =
     (let recordSize = RecordLen plan in
      case Read f buffer of (f', buffer', n) \<Rightarrow>
        (let nn = n; totalRead' = totalRead + nn in
         if nn = 0 then Returned (None, s, f', buffer')
         else if nn < recordSize then Returned (Some (ShortRead n recordSize), s, f', buffer')
         else
           (let leftBytes = maxRead - totalRead';
                nn' = (if leftBytes < 0 then nn + leftBytes else nn) in
            if recordSize = 0 then Panicked
            else
              (case packRecords e plan fp buffer' (int (fpos f')) nn' (quot nn' recordSize) 0 s of
                 Returned s' \<Rightarrow>
                   if leftBytes \<le> 0 then Returned (None, s', f', buffer')
                   else packingLoop e plan fp maxRead totalRead' f' buffer' s'
               | Panicked \<Rightarrow> Panicked
               | OutOfFuel \<Rightarrow> OutOfFuel))))"
  by pat_completeness auto
termination
  by (relation "measure (\<lambda>(e, plan, fp, maxRead, totalRead, f, buffer, s).
                    length (fdata f) - fpos f)")
     (auto dest: Read_advance [OF sym])

declare packingLoop.simps [simp del]

definition packingReader ::
  "env \<Rightarrow> ioplan \<Rightarrow> pstate \<Rightarrow> osFile \<Rightarrow> bytes \<Rightarrow> int \<Rightarrow> ioFilePlan
     \<Rightarrow> (error option \<times> pstate \<times> osFile \<times> bytes) outcome" where
  "packingReader e plan s f buffer maxRead fp = packingLoop e plan fp maxRead 0 f buffer s"

section \<open>Forward and backward reads of one segment\<close>

text \<open>
  The results of \<^verbatim>\<open>readForward\<close> and \<^verbatim>\<open>readBackward\<close>, with what they leave behind:
  the hint cache, the one-shot flag of the segment and the scratch buffer. A \<^verbatim>\<open>nil\<close>
  slice is \<open>None\<close>.
\<close>

record segResult =
  result :: "bytes option"
  finished :: bool
  bytesRead :: int
  err :: "error option"
  hintsOut :: "string \<rightharpoonup> int"
  scratchOut :: bytes

definition bufLen :: "bytes option \<Rightarrow> nat" where
  "bufLen b = (case b of None \<Rightarrow> 0 | Some x \<Rightarrow> length x)"

definition readForward ::
  "env \<Rightarrow> (string \<rightharpoonup> bytes) \<Rightarrow> ioplan \<Rightarrow> (string \<rightharpoonup> int) \<Rightarrow> bytes option \<Rightarrow> ioFilePlan
     \<Rightarrow> int \<Rightarrow> int \<Rightarrow> bytes \<Rightarrow> segResult outcome" where
  "readForward e fs plan hints finalBuffer fp recordLen bytesToRead readBuffer =
     (let filePath = FullPath fp;
          finalBuffer = (case finalBuffer of None \<Rightarrow> [] | Some b \<Rightarrow> b) in
      case OpenFile fs filePath of
        Inl er \<Rightarrow> Returned \<lparr>result = None, finished = False, bytesRead = 0, err = Some er,
                     hintsOut = hints, scratchOut = readBuffer\<rparr>
      | Inr f \<Rightarrow>
      (case SeekSet f (Offset fp) of
        Inl er \<Rightarrow> Returned \<lparr>result = Some finalBuffer, finished = False, bytesRead = 0,
                     err = Some er, hintsOut = hints, scratchOut = readBuffer\<rparr>
      | Inr f1 \<Rightarrow>
      (case packingReader e plan
              \<lparr>packedBuffer = finalBuffer, lastKnown = hints, seeking = seekingLast fp\<rparr>
              f1 readBuffer (Length fp) fp of
        Panicked \<Rightarrow> Panicked
      | OutOfFuel \<Rightarrow> OutOfFuel
      | Returned (er, s, f2, buffer') \<Rightarrow>
          if er \<noteq> None
          then Returned \<lparr>result = Some (packedBuffer s), finished = False, bytesRead = 0,
                  err = er, hintsOut = lastKnown s, scratchOut = buffer'\<rparr>
          else if i32 (int (length (packedBuffer s))) \<ge> bytesToRead
          then (case slice (packedBuffer s) 0 bytesToRead of
                  None \<Rightarrow> Panicked
                | Some clipped \<Rightarrow>
                    Returned \<lparr>result = Some clipped, finished = True, bytesRead = 0,
                      err = None, hintsOut = lastKnown s, scratchOut = buffer'\<rparr>)
          else Returned \<lparr>result = Some (packedBuffer s), finished = False, bytesRead = 0,
                  err = None, hintsOut = lastKnown s, scratchOut = buffer'\<rparr>)))"

text \<open>\<^verbatim>\<open>seekBackward\<close> returns \<open>(seekAmt, curpos, err)\<close> and the file.\<close>

definition seekBackward :: "osFile \<Rightarrow> int \<Rightarrow> int \<Rightarrow> int \<times> int \<times> error option \<times> osFile" where
  "seekBackward f relative_offset lowerBound =
     (let curpos = int (fpos f);
          seekAmt = (if curpos - relative_offset \<le> lowerBound then curpos - lowerBound
                     else relative_offset) in
      case SeekCur f (- seekAmt) of
        Inl er \<Rightarrow> (0, 0, Some er, f)
      | Inr f' \<Rightarrow> (seekAmt, int (fpos f'), None, f'))"

text \<open>
  The state of the window loop of \<^verbatim>\<open>readBackward\<close>. The loop has no bound of its own
  in the source, so the model counts windows down from \<open>fuel\<close>.
\<close>

record rbstate =
  finalBuf :: bytes
  toRead :: int
  nRead :: int
  maxToRead :: int
  curPos :: int
  rbFile :: osFile
  rbScratch :: bytes
  rbHints :: "string \<rightharpoonup> int"
  rbSeeking :: bool

definition rbExit :: "rbstate \<Rightarrow> segResult" where
  "rbExit st =
     \<lparr>result = Some (finalBuf st), finished = (toRead st = 0), bytesRead = nRead st,
      err = None, hintsOut = rbHints st, scratchOut = rbScratch st\<rparr>"

definition rbFail :: "error \<Rightarrow> (string \<rightharpoonup> int) \<Rightarrow> bytes \<Rightarrow> segResult" where
  "rbFail er hints scratch =
     \<lparr>result = None, finished = False, bytesRead = 0, err = Some er,
      hintsOut = hints, scratchOut = scratch\<rparr>"

fun readBackwardLoop ::
  "nat \<Rightarrow> env \<Rightarrow> ioplan \<Rightarrow> ioFilePlan \<Rightarrow> int \<Rightarrow> int \<Rightarrow> rbstate \<Rightarrow> segResult outcome" where
  "readBackwardLoop 0 e plan fp beginPos maxToBuffer st = OutOfFuel"
| "readBackwardLoop (Suc fuel) e plan fp beginPos maxToBuffer st =
     (case packingReader e plan
             \<lparr>packedBuffer = [], lastKnown = rbHints st, seeking = rbSeeking st\<rparr>
             (rbFile st) (rbScratch st) (maxToRead st) fp of
        Panicked \<Rightarrow> Panicked
      | OutOfFuel \<Rightarrow> OutOfFuel
      | Returned (er, s, f', buffer') \<Rightarrow>
        (case er of
           Some x \<Rightarrow> Returned (rbFail x (lastKnown s) buffer')
         | None \<Rightarrow>
           (let fileBuffer = packedBuffer s;
                numRead = i32 (int (length fileBuffer));
                st1 = st\<lparr>rbFile := f', rbScratch := buffer', rbHints := lastKnown s,
                         rbSeeking := seeking s\<rparr>;
                after = (\<lambda>st2.
                  if curPos st2 \<noteq> beginPos then
                    (case seekBackward (rbFile st2) (i32 (2 * maxToBuffer)) beginPos of
                       (amt, cp, er2, f2) \<Rightarrow>
                         (case er2 of
                            Some x \<Rightarrow> Returned (rbFail x (rbHints st2) (rbScratch st2))
                          | None \<Rightarrow>
                              readBackwardLoop fuel e plan fp beginPos maxToBuffer
                                (st2\<lparr>maxToRead := amt - maxToBuffer, curPos := cp,
                                      rbFile := f2\<rparr>)))
                  else Returned (rbExit st2)) in
            if numRead \<noteq> 0 then
              (if numRead \<le> toRead st1 then
                 (let btr = i32 (toRead st1 - numRead) in
                  if btr < 0 \<or> btr > int (length (finalBuf st1)) then Panicked
                  else after (st1\<lparr>nRead := i32 (nRead st1 + numRead), toRead := btr,
                                  finalBuf := copyAt (finalBuf st1) (nat btr) fileBuffer\<rparr>))
               else
                 (case sliceFrom fileBuffer (i32 (numRead - toRead st1)) of
                    None \<Rightarrow> Panicked
                  | Some tail \<Rightarrow>
                      Returned (rbExit (st1\<lparr>nRead := i32 (nRead st1 + numRead), toRead := 0,
                                            finalBuf := copyAt (finalBuf st1) 0 tail\<rparr>))))
            else after st1)))"

definition readBackward ::
  "nat \<Rightarrow> env \<Rightarrow> (string \<rightharpoonup> bytes) \<Rightarrow> ioplan \<Rightarrow> (string \<rightharpoonup> int) \<Rightarrow> bytes option \<Rightarrow> ioFilePlan
     \<Rightarrow> int \<Rightarrow> int \<Rightarrow> bytes \<Rightarrow> segResult outcome" where
  "readBackward fuel e fs plan hints finalBuffer fp recordLen bytesToRead readBuffer =
     (let filePath = FullPath fp;
          beginPos = Offset fp;
          maxToBuffer = i32 (int (length readBuffer)) in
      if finalBuffer = None \<and> bytesToRead < 0 then Panicked
      else
       (let finalBuffer = (case finalBuffer of None \<Rightarrow> replicate (nat bytesToRead) 0
                           | Some b \<Rightarrow> b) in
        case OpenFile fs filePath of
          Inl er \<Rightarrow> Returned (rbFail er hints readBuffer)
        | Inr f \<Rightarrow>
          (let f1 = (case SeekSet f (beginPos + Length fp) of Inl er \<Rightarrow> f | Inr g \<Rightarrow> g) in
           case seekBackward f1 maxToBuffer beginPos of
             (amt, cp, er, f2) \<Rightarrow>
               (case er of
                  Some x \<Rightarrow> Returned (rbFail x hints readBuffer)
                | None \<Rightarrow>
                    readBackwardLoop fuel e plan fp beginPos maxToBuffer
                      \<lparr>finalBuf = finalBuffer, toRead = bytesToRead, nRead = 0,
                       maxToRead = amt, curPos = cp, rbFile = f2, rbScratch = readBuffer,
                       rbHints = hints, rbSeeking = seekingLast fp\<rparr>))))"

section \<open>Reading a plan\<close>

text \<open>The forward strategy: the loop over \<^verbatim>\<open>iop.FilePlan\<close>.\<close>

record fwstate =
  fwBuffer :: "bytes option"
  fwErr :: "error option"
  fwMeta :: "bufferMeta list"
  fwHints :: "string \<rightharpoonup> int"
  fwScratch :: bytes

fun forwardLoop ::
  "env \<Rightarrow> (string \<rightharpoonup> bytes) \<Rightarrow> ioplan \<Rightarrow> int \<Rightarrow> ioFilePlan list \<Rightarrow> fwstate \<Rightarrow> fwstate outcome" where
  "forwardLoop e fs iop limitBytes [] st = Returned st"
| "forwardLoop e fs iop limitBytes (fp # fps) st =
     (let dataLen = bufLen (fwBuffer st) in
      case readForward e fs iop (fwHints st) (fwBuffer st) fp (RecordLen iop) limitBytes
             (fwScratch st) of
        Panicked \<Rightarrow> Panicked
      | OutOfFuel \<Rightarrow> OutOfFuel
      | Returned r \<Rightarrow>
          (let bufMeta =
                 (if RecordType iop = VARIABLE \<and> bufLen (result r) > dataLen
                  then fwMeta st @
                       [\<lparr>bmFullPath = FullPath fp,
                         Data = (case result r of None \<Rightarrow> [] | Some b \<Rightarrow> drop dataLen b),
                         VarRecLen = VariableRecordLen iop,
                         Intervals = GetIntervals (tbi fp)\<rparr>]
                  else fwMeta st);
               st' = \<lparr>fwBuffer = result r, fwErr = err r, fwMeta = bufMeta,
                      fwHints = hintsOut r, fwScratch = scratchOut r\<rparr> in
           if finished r then Returned st' else forwardLoop e fs iop limitBytes fps st'))"

text \<open>
  The walk over \<^verbatim>\<open>iop.PrevFilePlan\<close> that looks for the previous time. \<open>Inl\<close> is the
  early \<^verbatim>\<open>return nil, 0, err\<close>.
\<close>

fun tPrevLoop ::
  "nat \<Rightarrow> env \<Rightarrow> (string \<rightharpoonup> bytes) \<Rightarrow> ioplan \<Rightarrow> ioFilePlan list
     \<Rightarrow> int \<times> (string \<rightharpoonup> int) \<times> bytes
     \<Rightarrow> (error \<times> (string \<rightharpoonup> int) + int \<times> (string \<rightharpoonup> int) \<times> bytes) outcome" where
  "tPrevLoop fuel e fs iop [] st = Returned (Inr st)"
| "tPrevLoop fuel e fs iop (fp # fps) (tPrev, hints, scratch) =
     (case readBackward fuel e fs iop hints None fp (RecordLen iop) (RecordLen iop) scratch of
        Panicked \<Rightarrow> Panicked
      | OutOfFuel \<Rightarrow> OutOfFuel
      | Returned r \<Rightarrow>
          if finished r then
            (if bytesRead r \<noteq> 0 then
               (case Uint64 (case result r of None \<Rightarrow> [] | Some b \<Rightarrow> b) of
                  None \<Rightarrow> Panicked
                | Some w \<Rightarrow> Returned (Inr (sint w, hintsOut r, scratchOut r)))
             else Returned (Inr (tPrev, hintsOut r, scratchOut r)))
          else if err r \<noteq> None then Returned (Inl (the (err r), hintsOut r))
          else tPrevLoop fuel e fs iop fps (tPrev, hintsOut r, scratchOut r))"

text \<open>The reverse strategy: the loop over \<^verbatim>\<open>iop.FilePlan\<close> from its last entry to its first.\<close>

record rvstate =
  rvBuffer :: "bytes option"
  bytesLeftToFill :: int
  rvMeta :: "bufferMeta list"
  rvHints :: "string \<rightharpoonup> int"
  rvScratch :: bytes

fun reverseLoop ::
  "nat \<Rightarrow> env \<Rightarrow> (string \<rightharpoonup> bytes) \<Rightarrow> ioplan \<Rightarrow> ioFilePlan list \<Rightarrow> rvstate
     \<Rightarrow> (error option \<times> rvstate) outcome" where
  "reverseLoop fuel e fs iop [] st = Returned (None, st)"
| "reverseLoop fuel e fs iop (fp # fps) st =
     (case readBackward fuel e fs iop (rvHints st) (rvBuffer st) fp (RecordLen iop)
             (bytesLeftToFill st) (rvScratch st) of
        Panicked \<Rightarrow> Panicked
      | OutOfFuel \<Rightarrow> OutOfFuel
      | Returned r \<Rightarrow>
          (let left = i32 (bytesLeftToFill st - bytesRead r);
               recorded = (RecordType iop = VARIABLE \<and> bytesRead r > 0);
               left' = (if recorded \<and> left < 0 then 0 else left) in
           if recorded \<and> left' > int (bufLen (result r)) then Panicked
           else
             (let bufMeta =
                    (if recorded
                     then rvMeta st @
                          [\<lparr>bmFullPath = FullPath fp,
                            Data = (case result r of None \<Rightarrow> []
                                    | Some b \<Rightarrow> drop (nat left') b),
                            VarRecLen = VariableRecordLen iop,
                            Intervals = GetIntervals (tbi fp)\<rparr>]
                     else rvMeta st);
                  st' = \<lparr>rvBuffer = result r, bytesLeftToFill = left', rvMeta = bufMeta,
                         rvHints = hintsOut r, rvScratch = scratchOut r\<rparr> in
              if finished r then Returned (None, st')
              else if err r \<noteq> None then Returned (err r, st')
              else reverseLoop fuel e fs iop fps st')))"

text \<open>
  The loop that is meant to reverse \<^verbatim>\<open>bufMeta\<close>:
  \<^verbatim>\<open>for i := 0; i < lenOF/2; i++ { bufMeta[(lenOF-1)-i] = bufMeta[i] }\<close>.
\<close>

function reverseMeta :: "'a list \<Rightarrow> nat \<Rightarrow> 'a list" where
  "reverseMeta bufMeta i =
     (if i < length bufMeta div 2
      then reverseMeta (bufMeta[(length bufMeta - 1) - i := bufMeta ! i]) (i + 1)
      else bufMeta)"
  by pat_completeness auto
termination
  by (relation "measure (\<lambda>(bufMeta, i). length bufMeta div 2 - i)") auto

declare reverseMeta.simps [simp del]

text \<open>What \<^verbatim>\<open>read\<close> returns, and the hint cache it leaves.\<close>

record readResult =
  resultBuffer :: "bytes option"
  tPrev :: int
  readErr :: "error option"
  hintsAfter :: "string \<rightharpoonup> int"

record scanned =
  scBuffer :: "bytes option"
  scTPrev :: int
  scErr :: "error option"
  scMeta :: "bufferMeta list"
  scHints :: "string \<rightharpoonup> int"

definition failWith :: "error \<Rightarrow> (string \<rightharpoonup> int) \<Rightarrow> readResult" where
  "failWith er hints = \<lparr>resultBuffer = None, tPrev = 0, readErr = Some er, hintsAfter = hints\<rparr>"

text \<open>The branch \<^verbatim>\<open>direction == FIRST || direction == 0\<close>. \<open>Inl\<close> is an early return.\<close>

definition scanFirst ::
  "nat \<Rightarrow> env \<Rightarrow> (string \<rightharpoonup> bytes) \<Rightarrow> ioplan \<Rightarrow> int \<Rightarrow> bytes \<Rightarrow> (string \<rightharpoonup> int)
     \<Rightarrow> (readResult + scanned) outcome" where
  "scanFirst fuel e fs iop limitBytes readBuffer hints =
     (case forwardLoop e fs iop limitBytes (FilePlan iop)
             \<lparr>fwBuffer = None, fwErr = None, fwMeta = [], fwHints = hints,
              fwScratch = readBuffer\<rparr> of
        Panicked \<Rightarrow> Panicked
      | OutOfFuel \<Rightarrow> OutOfFuel
      | Returned st \<Rightarrow>
          (let prevCount = length (PrevFilePlan iop);
               tPrev0 = (if prevCount > 0
                         then BaseTime (PrevFilePlan iop ! (prevCount - 1)) - 60 else 0) in
           case tPrevLoop fuel e fs iop (PrevFilePlan iop) (tPrev0, fwHints st, fwScratch st) of
             Panicked \<Rightarrow> Panicked
           | OutOfFuel \<Rightarrow> OutOfFuel
           | Returned (Inl (er, h)) \<Rightarrow> Returned (Inl (failWith er h))
           | Returned (Inr (t, h, scratch)) \<Rightarrow>
               Returned (Inr \<lparr>scBuffer = fwBuffer st, scTPrev = t, scErr = fwErr st,
                              scMeta = fwMeta st, scHints = h\<rparr>)))"

text \<open>The branch \<^verbatim>\<open>direction == LAST\<close>.\<close>

definition scanLast ::
  "nat \<Rightarrow> env \<Rightarrow> (string \<rightharpoonup> bytes) \<Rightarrow> ioplan \<Rightarrow> int \<Rightarrow> bytes \<Rightarrow> (string \<rightharpoonup> int)
     \<Rightarrow> (readResult + scanned) outcome" where
  "scanLast fuel e fs iop limitBytes0 readBuffer hints =
     (let limitBytes = i32 (limitBytes0 + RecordLen iop) in
      case reverseLoop fuel e fs iop (rev (FilePlan iop))
             \<lparr>rvBuffer = None, bytesLeftToFill = limitBytes, rvMeta = [], rvHints = hints,
              rvScratch = readBuffer\<rparr> of
        Panicked \<Rightarrow> Panicked
      | OutOfFuel \<Rightarrow> OutOfFuel
      | Returned (Some er, st) \<Rightarrow> Returned (Inl (failWith er (rvHints st)))
      | Returned (None, st) \<Rightarrow>
          (case (if bytesLeftToFill st > 0 \<and> bufLen (rvBuffer st) > 0
                 then sliceFrom (case rvBuffer st of None \<Rightarrow> [] | Some b \<Rightarrow> b)
                        (bytesLeftToFill st)
                 else Some (case rvBuffer st of None \<Rightarrow> [] | Some b \<Rightarrow> b)) of
             None \<Rightarrow> Panicked
           | Some trimmed \<Rightarrow>
               (let trimmedBuffer = (if bytesLeftToFill st > 0 \<and> bufLen (rvBuffer st) > 0
                                     then Some trimmed else rvBuffer st);
                    bufMeta = (if RecordType iop = VARIABLE then reverseMeta (rvMeta st) 0
                               else rvMeta st) in
                if length trimmed > 0 then
                  (case Uint64 trimmed of
                     None \<Rightarrow> Panicked
                   | Some w \<Rightarrow>
                     (case sliceFrom trimmed (RecordLen iop) of
                        None \<Rightarrow> Panicked
                      | Some chopped \<Rightarrow>
                          if RecordType iop = VARIABLE then
                            (case bufMeta of
                               [] \<Rightarrow> Panicked
                             | m # ms \<Rightarrow>
                               (case sliceFrom (Data m) (RecordLen iop) of
                                  None \<Rightarrow> Panicked
                                | Some d \<Rightarrow>
                                    Returned (Inr \<lparr>scBuffer = Some chopped, scTPrev = sint w,
                                      scErr = None, scMeta = m\<lparr>Data := d\<rparr> # ms,
                                      scHints = rvHints st\<rparr>)))
                          else Returned (Inr \<lparr>scBuffer = Some chopped, scTPrev = sint w,
                                  scErr = None, scMeta = bufMeta, scHints = rvHints st\<rparr>)))
                else Returned (Inr \<lparr>scBuffer = trimmedBuffer, scTPrev = 0, scErr = None,
                        scMeta = bufMeta, scHints = rvHints st\<rparr>))))"

text \<open>
  \<^verbatim>\<open>read\<close>. \<open>rReadBuffer\<close> is the reader's \<^verbatim>\<open>r.readBuffer\<close>; the reader's
  \<^verbatim>\<open>fileBuffer\<close> is emptied before every use and has no place in the model.
\<close>

definition read ::
  "nat \<Rightarrow> env \<Rightarrow> (string \<rightharpoonup> bytes) \<Rightarrow> bytes \<Rightarrow> (string \<rightharpoonup> int) \<Rightarrow> ioplan \<Rightarrow> readResult outcome" where
  "read fuel e fs rReadBuffer hints iop =
     (let maxToBuffer = i32 (RecordsPerRead * RecordLen iop) in
      case slice rReadBuffer 0 maxToBuffer of
        None \<Rightarrow> Panicked
      | Some readBuffer \<Rightarrow>
        (let direction = Direction (Limit iop) in
         if Number (Limit iop) = MaxInt32 \<and> direction = LAST
         then Returned (failWith ReverseRequiresLimit hints)
         else
           (let limitBytes = (if Number (Limit iop) \<noteq> MaxInt32
                              then i32 (RecordLen iop * Number (Limit iop)) else MaxInt32) in
            case (if direction = FIRST \<or> direction = UNSET
                  then scanFirst fuel e fs iop limitBytes readBuffer hints
                  else if direction = LAST
                  then scanLast fuel e fs iop limitBytes readBuffer hints
                  else Returned (Inr \<lparr>scBuffer = None, scTPrev = 0, scErr = None, scMeta = [],
                                  scHints = hints\<rparr>)) of
              Panicked \<Rightarrow> Panicked
            | OutOfFuel \<Rightarrow> OutOfFuel
            | Returned (Inl early) \<Rightarrow> Returned early
            | Returned (Inr sc) \<Rightarrow>
                if RecordType iop = VARIABLE then
                  (case readSecondStage e (scMeta sc) of
                     (b, Some msg) \<Rightarrow> Returned (failWith (SecondStageError msg) (scHints sc))
                   | (b, None) \<Rightarrow>
                       Returned \<lparr>resultBuffer = b, tPrev = scTPrev sc, readErr = None,
                                 hintsAfter = scHints sc\<rparr>)
                else Returned \<lparr>resultBuffer = scBuffer sc, tPrev = scTPrev sc,
                        readErr = scErr sc, hintsAfter = scHints sc\<rparr>)))"

section \<open>Building the plan\<close>

text \<open>
  The body of the loop of \<^verbatim>\<open>NewIOPlan\<close> for one file: the plan built so far and the
  list \<^verbatim>\<open>prevPaths\<close> go in and come out. The read-hint cache
  (\<^verbatim>\<open>readhint.GetLastKnown\<close>) is a map from path to offset.
\<close>

definition planFile ::
  "env \<Rightarrow> (string \<rightharpoonup> int) \<Rightarrow> ParseResult \<Rightarrow> QualifiedFile \<Rightarrow> ioplan \<times> ioFilePlan list
     \<Rightarrow> error + ioplan \<times> ioFilePlan list" where
  "planFile e hints pr file acc =
     (let iop = fst acc; prevPaths = snd acc;
          fileStartTime = YearStart e (Year (File file));
          recLen = GetRecordLength (File file);
          startOffset = Headersize e;
          endOffset = FileSize e (GetTimeframe (File file)) (Year (File file)) recLen;
          length0 = endOffset - startOffset;
          maxLength = length0 + recLen in
      case (if RecordLen iop = 0
            then Inr (iop\<lparr>RecordLen := recLen, RecordType := GetRecordType (File file),
                          VariableRecordLen := GetVariableRecordLength (File file)\<rparr>)
            else if recLen \<noteq> RecordLen iop then Inl RecordLengthNotConsistent
            else Inr iop) of
        Inl er \<Rightarrow> Inl er
      | Inr iop1 \<Rightarrow>
          if Year (File file) < StartYear (Range pr) then
            Inr (iop1, prevPaths @
                  [\<lparr>tbi = File file, Offset = startOffset, Length = length0,
                    FullPath = Path (File file), BaseTime = fileStartTime,
                    seekingLast = False\<rparr>])
          else if Year (File file) \<le> EndYear (Range pr) then
            (let startOffset1 =
                   (if Year (File file) = StartYear (Range pr)
                    then EpochToOffset e (Start (Range pr)) (GetTimeframe (File file)) recLen
                    else startOffset);
                 endOffset1 =
                   (if Year (File file) = EndYear (Range pr)
                    then EpochToOffset e (End (Range pr)) (GetTimeframe (File file)) recLen
                           + recLen
                    else endOffset);
                 endOffset2 =
                   (case hints (Path (File file)) of
                      Some lastKnownOffset \<Rightarrow>
                        (let hinted = lastKnownOffset + recLen in
                         if hinted < endOffset1 then hinted else endOffset1)
                    | None \<Rightarrow> endOffset1);
                 length1 = endOffset2 - startOffset1;
                 length2 = (if length1 > maxLength then maxLength else length1);
                 fp = \<lparr>tbi = File file, Offset = startOffset1, Length = length2,
                       FullPath = Path (File file), BaseTime = fileStartTime,
                       seekingLast = (Direction (Limit iop1) = LAST)\<rparr>;
                 iop2 = iop1\<lparr>FilePlan := FilePlan iop1 @ [fp]\<rparr> in
             if Year (File file) = StartYear (Range pr) then
               Inr (iop2, prevPaths @
                     [\<lparr>tbi = File file, Offset = Headersize e,
                       Length = startOffset1 - Headersize e,
                       FullPath = Path (File file), BaseTime = fileStartTime,
                       seekingLast = False\<rparr>])
             else Inr (iop2, prevPaths))
          else Inr (iop1, prevPaths))"

fun planFiles ::
  "env \<Rightarrow> (string \<rightharpoonup> int) \<Rightarrow> ParseResult \<Rightarrow> QualifiedFile list \<Rightarrow> ioplan \<times> ioFilePlan list
     \<Rightarrow> error + ioplan \<times> ioFilePlan list" where
  "planFiles e hints pr [] acc = Inr acc"
| "planFiles e hints pr (file # fl) acc =
     (case planFile e hints pr file acc of
        Inl er \<Rightarrow> Inl er
      | Inr acc' \<Rightarrow> planFiles e hints pr fl acc')"

text \<open>
  \<^verbatim>\<open>NewIOPlan\<close>. The plan starts as \<^verbatim>\<open>new(ioplan)\<close> with the limit of the query; the
  zero value of the record type is taken to be \<open>FIXED\<close>.
\<close>

definition NewIOPlan ::
  "env \<Rightarrow> (string \<rightharpoonup> int) \<Rightarrow> QualifiedFile list \<Rightarrow> ParseResult \<Rightarrow> error + ioplan" where
  "NewIOPlan e hints fl pr =
     (case planFiles e hints pr fl
             (\<lparr>FilePlan = [], PrevFilePlan = [], RecordLen = 0, RecordType = FIXED,
               VariableRecordLen = 0, Limit = prLimit pr, TimeQuals = []\<rparr>, []) of
        Inl er \<Rightarrow> Inl er
      | Inr (iop, prevPaths) \<Rightarrow>
          Inr (iop\<lparr>PrevFilePlan := rev prevPaths, TimeQuals := prTimeQuals pr\<rparr>))"

section \<open>Scenarios\<close>

text \<open>
  Modelled from the spec: the slot geometry of \<^verbatim>\<open>utils/io\<close> (\<^verbatim>\<open>FileSize\<close>,
  \<^verbatim>\<open>EpochToOffset\<close>, \<^verbatim>\<open>IndexToTime\<close> and the constant \<^verbatim>\<open>Headersize\<close>), which is not
  part of \<^verbatim>\<open>scanner.go\<close>. Section 4.1 of the spec gives
  \<open>index_to_epoch(k, _, y) = year_start(y) + (k - 1) * timeframe\<close>, puts slot 1 right after
  the header and makes a file \<open>header_size + slot_count * record_length\<close> bytes long. The
  scenarios use a header of 37024 bytes, timeframes in seconds, the UTC year starts of
  2019 to 2021 and a second stage that returns nothing.
\<close>

definition utcYearStart :: "int \<Rightarrow> int" where
  "utcYearStart y =
     (if y = 2019 then 1546300800 else if y = 2020 then 1577836800 else 1609459200)"

definition yearOfEpoch :: "int \<Rightarrow> int" where
  "yearOfEpoch t = (if t < 1577836800 then 2019 else if t < 1609459200 then 2020 else 2021)"

definition daysInYear :: "int \<Rightarrow> int" where
  "daysInYear y = (if y = 2020 then 366 else 365)"

definition specEnv :: env where
  "specEnv =
     \<lparr>Headersize = 37024,
      FileSize = (\<lambda>tf year recLen. 37024 + daysInYear year * (86400 div tf) * recLen),
      EpochToOffset = (\<lambda>epoch tf recLen.
         37024 + ((epoch - utcYearStart (yearOfEpoch epoch)) div tf) * recLen),
      IndexToTime = (\<lambda>index tf year. utcYearStart year + (index - 1) * tf),
      YearStart = utcYearStart,
      readSecondStage = (\<lambda>bufMeta. (None, None))\<rparr>"

text \<open>
  A daily bucket with records of 16 bytes. The file of 2020 has 366 slots; the last five
  (27 to 31 December, indices 362 to 366) are populated, each with its index followed by
  eight payload bytes.
\<close>

definition daily :: "int \<Rightarrow> string \<Rightarrow> TimeBucketInfo" where
  "daily y p =
     \<lparr>Year = y, Path = p, GetTimeframe = 86400, GetRecordLength = 16,
      GetRecordType = FIXED, GetVariableRecordLength = 0, GetIntervals = 1\<rparr>"

definition file2020 :: bytes where
  "file2020 = replicate 42800 0 @
     [106, 1, 0, 0, 0, 0, 0, 0, 1, 1, 1, 1, 1, 1, 1, 1,
      107, 1, 0, 0, 0, 0, 0, 0, 2, 2, 2, 2, 2, 2, 2, 2,
      108, 1, 0, 0, 0, 0, 0, 0, 3, 3, 3, 3, 3, 3, 3, 3,
      109, 1, 0, 0, 0, 0, 0, 0, 4, 4, 4, 4, 4, 4, 4, 4,
      110, 1, 0, 0, 0, 0, 0, 0, 5, 5, 5, 5, 5, 5, 5, 5]"

definition disk2020 :: "string \<rightharpoonup> bytes" where
  "disk2020 = [''2020.bin'' \<mapsto> file2020]"

text \<open>The query for the range \<open>[t0, t1]\<close>.\<close>

definition rangeQuery :: "int \<Rightarrow> int \<Rightarrow> DirectionEnum \<Rightarrow> int \<Rightarrow> ParseResult" where
  "rangeQuery t0 t1 d n =
     \<lparr>Range = \<lparr>Start = t0, End = t1, StartYear = yearOfEpoch t0,
                EndYear = yearOfEpoch t1\<rparr>,
      prLimit = \<lparr>Number = n, Direction = d\<rparr>, prTimeQuals = []\<rparr>"

definition qfile :: "TimeBucketInfo \<Rightarrow> QualifiedFile" where
  "qfile t = \<lparr>Key = ''TEST/1D/OHLC'', File = t\<rparr>"

text \<open>The reader's buffer for records of 16 bytes: \<^verbatim>\<open>RecordsPerRead * 16\<close> bytes.\<close>

definition readBuffer16 :: bytes where
  "readBuffer16 = replicate 32000 0"

text \<open>
  The file of 2021 of the same bucket, cut off three bytes after its header, and the disk
  that holds both files.
\<close>

definition file2021short :: bytes where
  "file2021short = replicate 37024 0 @ [1, 0, 0]"

definition disk2021 :: "string \<rightharpoonup> bytes" where
  "disk2021 = [''2020.bin'' \<mapsto> file2020, ''2021.bin'' \<mapsto> file2021short]"

definition segment2021 :: "int \<Rightarrow> int \<Rightarrow> bool \<Rightarrow> ioFilePlan" where
  "segment2021 off len sl =
     \<lparr>tbi = daily 2021 ''2021.bin'', Offset = off, Length = len, FullPath = ''2021.bin'',
      BaseTime = 1609459200, seekingLast = sl\<rparr>"


text \<open>Two more pieces of the scenario: a segment of the 2020 file and a plan over it.\<close>

definition segment2020 :: "int \<Rightarrow> int \<Rightarrow> bool \<Rightarrow> ioFilePlan" where
  "segment2020 off len sl =
     \<lparr>tbi = daily 2020 ''2020.bin'', Offset = off, Length = len, FullPath = ''2020.bin'',
      BaseTime = 1577836800, seekingLast = sl\<rparr>"

definition plan2020 :: "ioFilePlan list \<Rightarrow> ioFilePlan list \<Rightarrow> DirectionEnum \<Rightarrow> int \<Rightarrow> ioplan" where
  "plan2020 fps prev d n =
     \<lparr>FilePlan = fps, PrevFilePlan = prev, RecordLen = 16, RecordType = FIXED,
      VariableRecordLen = 0, Limit = \<lparr>Number = n, Direction = d\<rparr>, TimeQuals = []\<rparr>"

lemmas eval_simps =
  read_def scanLast_def scanFirst_def readBackward_def readForward_def packingReader_def
  packingLoop.simps packRecords.simps packSlot_def Read_def SeekSet_def SeekCur_def
  OpenFile_def seekBackward_def slice_def sliceFrom_def Uint64_def PutUint64_def le_bytes_def
  copyAt_def i32_def MaxInt32_def RecordsPerRead_def quot_def rbExit_def rbFail_def bufLen_def
  failWith_def GetFileYear_def Let_def specEnv_def disk2020_def file2020_def daily_def
  utcYearStart_def yearOfEpoch_def daysInYear_def rangeQuery_def qfile_def readBuffer16_def
  NewIOPlan_def planFile_def segment2020_def plan2020_def segment2021_def disk2021_def
  file2021short_def

section \<open>What the packing reader appends\<close>

lemma length_le_bytes [simp]: "length (le_bytes v) = 8"
  by (simp add: le_bytes_def)

lemma PutUint64_append:
  "PutUint64 (p @ r) (length p) v = Some b \<Longrightarrow> b = p @ le_bytes v @ drop 8 r \<and> 8 \<le> length r"
  by (auto simp: PutUint64_def split: if_splits)

lemma slice_Some:
  "slice s lo hi = Some r \<Longrightarrow> r = take (nat (hi - lo)) (drop (nat lo) s) \<and> int (length r) = hi - lo
     \<and> 0 \<le> lo \<and> lo \<le> hi \<and> hi \<le> int (length s)"
  by (auto simp: slice_def split: if_splits)

lemma slice_length: "slice s lo hi = Some r \<Longrightarrow> int (length r) = hi - lo"
  by (auto simp: slice_def split: if_splits)

lemma packSlot_grow:
  assumes "packSlot e plan fp buffer cur nn i s = Returned s'"
  shows "\<exists>ext. packedBuffer s' = packedBuffer s @ ext \<and>
           (ext = [] \<or> (int (length ext) = RecordLen plan \<and> 8 \<le> RecordLen plan))"
proof -
  have "packedBuffer s' = packedBuffer s \<or>
        (\<exists>r b'. slice buffer (i * RecordLen plan) (i * RecordLen plan + RecordLen plan) = Some r \<and>
           (\<exists>v. PutUint64 (packedBuffer s @ r) (length (packedBuffer s)) v = Some b') \<and>
           packedBuffer s' = b')"
    using assms
    by (auto simp: packSlot_def Let_def split: option.splits if_splits)
  then show ?thesis
  proof
    assume "packedBuffer s' = packedBuffer s"
    then show ?thesis by simp
  next
    assume "\<exists>r b'. slice buffer (i * RecordLen plan) (i * RecordLen plan + RecordLen plan) = Some r \<and>
           (\<exists>v. PutUint64 (packedBuffer s @ r) (length (packedBuffer s)) v = Some b') \<and>
           packedBuffer s' = b'"
    then obtain r b' v where r: "slice buffer (i * RecordLen plan) (i * RecordLen plan + RecordLen plan) = Some r"
      and p: "PutUint64 (packedBuffer s @ r) (length (packedBuffer s)) v = Some b'"
      and b: "packedBuffer s' = b'" by blast
    from slice_length [OF r] have lr: "int (length r) = RecordLen plan" by simp
    from PutUint64_append [OF p] have b': "b' = packedBuffer s @ le_bytes v @ drop 8 r" and r8: "8 \<le> length r"
      by simp_all
    have "int (length (le_bytes v @ drop 8 r)) = RecordLen plan"
      using lr r8 by simp
    moreover have "8 \<le> RecordLen plan" using lr r8 by simp
    ultimately show ?thesis using b b' by blast
  qed
qed



definition grows :: "int \<Rightarrow> bytes \<Rightarrow> bytes \<Rightarrow> nat \<Rightarrow> bool" where
  "grows rs p p' k =
     ((\<exists>ext. p' = p @ ext \<and> int (length ext) = int k * rs) \<and> (0 < k \<longrightarrow> 8 \<le> rs))"

lemma grows_refl: "grows rs p p 0"
  by (simp add: grows_def)

lemma grows_trans:
  assumes "grows rs p p' k" and "grows rs p' p'' l"
  shows "grows rs p p'' (k + l)"
proof -
  from assms obtain e1 e2 where e1: "p' = p @ e1" "int (length e1) = int k * rs"
    and e2: "p'' = p' @ e2" "int (length e2) = int l * rs"
    by (auto simp: grows_def)
  have "p'' = p @ (e1 @ e2)" using e1 e2 by simp
  moreover have "int (length (e1 @ e2)) = int (k + l) * rs"
    using e1 e2 by (simp add: algebra_simps)
  moreover have "0 < k + l \<longrightarrow> 8 \<le> rs"
    using assms by (auto simp: grows_def)
  ultimately show ?thesis unfolding grows_def by blast
qed

lemma packSlot_grows:
  assumes "packSlot e plan fp buffer cur nn i s = Returned s'"
  shows "\<exists>k\<le>1. grows (RecordLen plan) (packedBuffer s) (packedBuffer s') k"
proof -
  from packSlot_grow [OF assms] obtain ext where
    ext: "packedBuffer s' = packedBuffer s @ ext"
      "ext = [] \<or> (int (length ext) = RecordLen plan \<and> 8 \<le> RecordLen plan)"
    by blast
  show ?thesis
  proof (cases "ext = []")
    case True
    then have "grows (RecordLen plan) (packedBuffer s) (packedBuffer s') 0"
      using ext by (simp add: grows_def)
    then show ?thesis by blast
  next
    case False
    then have "grows (RecordLen plan) (packedBuffer s) (packedBuffer s') 1"
      using ext by (simp add: grows_def)
    then show ?thesis by blast
  qed
qed

lemma packRecords_grows:
  "packRecords e plan fp buffer cur nn numToRead i s = Returned s' \<Longrightarrow>
     \<exists>k. grows (RecordLen plan) (packedBuffer s) (packedBuffer s') k \<and>
         int k \<le> max 0 (numToRead - i)"
proof (induction e plan fp buffer cur nn numToRead i s rule: packRecords.induct)
  case (1 e plan fp buffer cur nn numToRead i s)
  show ?case
  proof (cases "i < numToRead")
    case False
    with "1.prems" have "s' = s" by (simp add: packRecords.simps)
    then show ?thesis using grows_refl by fastforce
  next
    case True
    with "1.prems" obtain s1 where
      s1: "packSlot e plan fp buffer cur nn i s = Returned s1"
      and rest: "packRecords e plan fp buffer cur nn numToRead (i + 1) s1 = Returned s'"
      by (auto simp: packRecords.simps [of e plan fp buffer cur nn numToRead i s]
          split: outcome.splits)
    from packSlot_grows [OF s1] obtain k1 where
      k1: "k1 \<le> 1" "grows (RecordLen plan) (packedBuffer s) (packedBuffer s1) k1" by blast
    from "1.IH" [OF True s1 rest] obtain k2 where
      k2: "grows (RecordLen plan) (packedBuffer s1) (packedBuffer s') k2"
        "int k2 \<le> max 0 (numToRead - (i + 1))" by blast
    have "grows (RecordLen plan) (packedBuffer s) (packedBuffer s') (k1 + k2)"
      using k1(2) k2(1) by (rule grows_trans)
    moreover have "int (k1 + k2) \<le> max 0 (numToRead - i)"
      using k1(1) k2(2) True by simp
    ultimately show ?thesis by blast
  qed
qed

lemma quot_bound:
  assumes "8 \<le> rs"
  shows "max 0 (quot a rs) * rs \<le> max 0 a"
proof (cases "0 < a")
  case True
  then have "quot a rs = a div rs" using assms by (simp add: quot_def)
  moreover have "a div rs * rs \<le> a"
    using div_mult_mod_eq [of a rs] pos_mod_sign [of rs a] assms by linarith
  ultimately show ?thesis using True assms
    by (simp add: max_def pos_imp_zdiv_nonneg_iff)
next
  case False
  then have "quot a rs \<le> 0" using assms
    by (auto simp: quot_def sgn_if mult_le_0_iff pos_imp_zdiv_nonneg_iff)
  then show ?thesis using False by (simp add: max_def)
qed


definition clipped :: "int \<Rightarrow> int \<Rightarrow> int \<Rightarrow> int" where
  "clipped maxRead totalRead n = (if maxRead - (totalRead + n) < 0 then maxRead - totalRead else n)"

lemma packingLoop_step:
  assumes "Read f buffer = (f1, b1, n)"
  shows "packingLoop e plan fp maxRead totalRead f buffer s =
    (if n = 0 then Returned (None, s, f1, b1)
     else if n < RecordLen plan then Returned (Some (ShortRead n (RecordLen plan)), s, f1, b1)
     else if RecordLen plan = 0 then Panicked
     else (case packRecords e plan fp b1 (int (fpos f1)) (clipped maxRead totalRead n)
                  (quot (clipped maxRead totalRead n) (RecordLen plan)) 0 s of
             Returned s1 \<Rightarrow>
               if maxRead - (totalRead + n) \<le> 0 then Returned (None, s1, f1, b1)
               else packingLoop e plan fp maxRead (totalRead + n) f1 b1 s1
           | Panicked \<Rightarrow> Panicked
           | OutOfFuel \<Rightarrow> OutOfFuel))"
  by (subst packingLoop.simps) (auto simp add: assms Let_def clipped_def)

lemma clipped_le: "0 \<le> n \<Longrightarrow> max 0 (clipped maxRead totalRead n) \<le> max 0 (maxRead - totalRead)"
  by (auto simp: clipped_def)

lemma packingLoop_grows:
  "packingLoop e plan fp maxRead totalRead f buffer s = Returned (er, s', f', b') \<Longrightarrow>
     (\<exists>k. grows (RecordLen plan) (packedBuffer s) (packedBuffer s') k \<and>
          int k * RecordLen plan \<le> max 0 (maxRead - totalRead)) \<and>
     (er = None \<or> (\<exists>a b. er = Some (ShortRead a b))) \<and>
     length b' = length buffer \<and> fdata f' = fdata f \<and> fpos f \<le> fpos f'"
proof (induction "length (fdata f) - fpos f" arbitrary: f buffer s totalRead rule: less_induct)
  case less
  obtain f1 b1 n where rd: "Read f buffer = (f1, b1, n)"
    by (cases "Read f buffer") auto
  note step = packingLoop_step [OF rd, of e plan fp maxRead totalRead s]
  have lb: "length b1 = length buffer" using rd by (rule Read_length_buffer)
  have fd: "fdata f1 = fdata f" using rd by (rule Read_fdata)
  have fp1: "int (fpos f1) = int (fpos f) + n" using rd by (rule Read_fpos)
  have n0: "0 \<le> n" using Read_n [OF rd] by simp
  have pos: "fpos f \<le> fpos f1" using fp1 n0 by linarith
  show ?case
  proof (cases "n = 0")
    case True
    with less.prems step have "s' = s" "er = None" "f' = f1" "b' = b1" by simp_all
    then show ?thesis using lb fd pos grows_refl [of "RecordLen plan" "packedBuffer s"]
      by fastforce
  next
    case nz: False
    show ?thesis
    proof (cases "n < RecordLen plan")
      case True
      with less.prems step nz have "s' = s" "er = Some (ShortRead n (RecordLen plan))"
        "f' = f1" "b' = b1" by simp_all
      then show ?thesis using lb fd pos grows_refl [of "RecordLen plan" "packedBuffer s"]
        by fastforce
    next
      case big: False
      have rs0: "RecordLen plan \<noteq> 0"
        using less.prems step nz big by (auto split: if_splits)
      let ?c = "clipped maxRead totalRead n"
      obtain s1 where pr: "packRecords e plan fp b1 (int (fpos f1)) ?c (quot ?c (RecordLen plan)) 0 s
          = Returned s1"
        using less.prems step nz big rs0 by (auto split: outcome.splits)
      from packRecords_grows [OF pr] obtain k1 where
        k1: "grows (RecordLen plan) (packedBuffer s) (packedBuffer s1) k1"
          "int k1 \<le> max 0 (quot ?c (RecordLen plan) - 0)" by blast
      have b1: "int k1 * RecordLen plan \<le> max 0 ?c"
      proof (cases "k1 = 0")
        case True
        then show ?thesis by simp
      next
        case False
        then have r8: "8 \<le> RecordLen plan" using k1(1) by (simp add: grows_def)
        have "int k1 * RecordLen plan \<le> max 0 (quot ?c (RecordLen plan)) * RecordLen plan"
          using k1(2) r8 by (simp add: mult_right_mono)
        also have "\<dots> \<le> max 0 ?c" using r8 by (rule quot_bound)
        finally show ?thesis .
      qed
      show ?thesis
      proof (cases "maxRead - (totalRead + n) \<le> 0")
        case True
        with less.prems step nz big rs0 pr have "s' = s1" "er = None" "f' = f1" "b' = b1"
          by simp_all
        moreover have "int k1 * RecordLen plan \<le> max 0 (maxRead - totalRead)"
          using b1 clipped_le [OF n0, of maxRead totalRead] by linarith
        ultimately show ?thesis using lb fd pos k1(1) by blast
      next
        case False
        with less.prems step nz big rs0 pr have
          rec: "packingLoop e plan fp maxRead (totalRead + n) f1 b1 s1 = Returned (er, s', f', b')"
          by simp
        have decr: "length (fdata f1) - fpos f1 < length (fdata f) - fpos f"
          using Read_advance [OF rd nz] .
        from less.hyps [OF decr rec] obtain k2 where
          k2: "grows (RecordLen plan) (packedBuffer s1) (packedBuffer s') k2"
            "int k2 * RecordLen plan \<le> max 0 (maxRead - (totalRead + n))"
          and rest: "er = None \<or> (\<exists>a b. er = Some (ShortRead a b))"
            "length b' = length b1" "fdata f' = fdata f1" "fpos f1 \<le> fpos f'"
          by blast
        have cn: "?c = n" using False by (simp add: clipped_def)
        have "grows (RecordLen plan) (packedBuffer s) (packedBuffer s') (k1 + k2)"
          using k1(1) k2(1) by (rule grows_trans)
        moreover have "int (k1 + k2) * RecordLen plan \<le> max 0 (maxRead - totalRead)"
          using b1 k2(2) cn False n0 by (simp add: algebra_simps max_def split: if_splits)
        ultimately show ?thesis using rest lb fd pos by (metis le_trans)
      qed
    qed
  qed
qed



section \<open>The errors of a reverse scan\<close>

lemma packingReader_err:
  "packingReader e plan s f buffer maxRead fp = Returned (er, s', f', b') \<Longrightarrow> er \<noteq> Some ReverseRequiresLimit"
  unfolding packingReader_def by (drule packingLoop_grows) auto

lemma seekBackward_err:
  "seekBackward f rel lb = (amt, cp, Some x, f2) \<Longrightarrow> x = SeekError"
  by (auto simp: seekBackward_def SeekCur_def Let_def split: if_splits sum.splits)

lemma readBackwardLoop_err:
  "readBackwardLoop fuel e plan fp beginPos maxToBuffer st = Returned r \<Longrightarrow>
     err r \<noteq> Some ReverseRequiresLimit"
proof (induction fuel arbitrary: st)
  case 0
  then show ?case by simp
next
  case (Suc fuel)
  from Suc.prems show ?case
    apply (simp only: readBackwardLoop.simps)
    apply (auto simp: Let_def rbFail_def rbExit_def
        split: outcome.splits option.splits prod.splits if_splits
        dest: packingReader_err seekBackward_err Suc.IH)
    done
qed


lemma readBackward_err:
  "readBackward fuel e fs plan hints finalBuffer fp recordLen bytesToRead readBuffer = Returned r \<Longrightarrow>
     err r \<noteq> Some ReverseRequiresLimit"
  by (auto simp: readBackward_def Let_def rbFail_def OpenFile_def
      split: if_splits sum.splits option.splits prod.splits
      dest: readBackwardLoop_err seekBackward_err)

lemma reverseLoop_Cons_cases:
  assumes "reverseLoop fuel e fs iop (fp # fps) st = Returned (er, st')"
  shows "\<exists>r. readBackward fuel e fs iop (rvHints st) (rvBuffer st) fp (RecordLen iop)
               (bytesLeftToFill st) (rvScratch st) = Returned r \<and>
           (er = None \<or> er = err r \<or>
            (\<exists>st1. reverseLoop fuel e fs iop fps st1 = Returned (er, st')))"
  using assms
  by (auto simp: Let_def split: outcome.splits if_splits)

lemma reverseLoop_err:
  "reverseLoop fuel e fs iop fps st = Returned (er, st') \<Longrightarrow> er \<noteq> Some ReverseRequiresLimit"
proof (induction fps arbitrary: st)
  case Nil
  then show ?case by simp
next
  case (Cons fp fps)
  from reverseLoop_Cons_cases [OF Cons.prems] obtain r where
    r: "readBackward fuel e fs iop (rvHints st) (rvBuffer st) fp (RecordLen iop)
               (bytesLeftToFill st) (rvScratch st) = Returned r"
    and c: "er = None \<or> er = err r \<or>
            (\<exists>st1. reverseLoop fuel e fs iop fps st1 = Returned (er, st'))"
    by blast
  from c show ?case
    using readBackward_err [OF r] Cons.IH by auto
qed

lemma scanLast_err:
  "scanLast fuel e fs iop limitBytes0 readBuffer hints = Returned (Inl early) \<Longrightarrow>
     readErr early \<noteq> Some ReverseRequiresLimit"
  by (auto simp: scanLast_def Let_def failWith_def
      split: outcome.splits option.splits prod.splits if_splits list.splits
      dest: reverseLoop_err)

lemma scanLast_ok:
  "scanLast fuel e fs iop limitBytes0 readBuffer hints = Returned (Inr sc) \<Longrightarrow> scErr sc = None"
  by (auto simp: scanLast_def Let_def failWith_def
      split: outcome.splits option.splits prod.splits if_splits list.splits)


text \<open>
  C9. A plan whose direction is LAST and whose count is the unlimited sentinel
  \<open>MaxInt32\<close> makes \<open>read\<close> return the error \<open>ReverseRequiresLimit\<close> with a nil buffer
  and \<open>tPrev = 0\<close> (provided the reader's buffer holds \<open>RecordsPerRead\<close> records, as
  \<^verbatim>\<open>NewReader\<close> allocates it); with a finite count, no return of a LAST scan carries that
  error.
\<close>

theorem read_reverse_requires_limit:
  assumes "Direction (Limit iop) = LAST"
    and "slice rReadBuffer 0 (i32 (RecordsPerRead * RecordLen iop)) = Some readBuffer"
  shows "(Number (Limit iop) = MaxInt32 \<longrightarrow>
            read fuel e fs rReadBuffer hints iop = Returned (failWith ReverseRequiresLimit hints))
       \<and> (Number (Limit iop) \<noteq> MaxInt32 \<longrightarrow>
            (\<forall>r. read fuel e fs rReadBuffer hints iop = Returned r \<longrightarrow>
                 readErr r \<noteq> Some ReverseRequiresLimit))"
proof (intro conjI impI allI)
  assume "Number (Limit iop) = MaxInt32"
  then show "read fuel e fs rReadBuffer hints iop = Returned (failWith ReverseRequiresLimit hints)"
    using assms by (simp add: read_def Let_def)
next
  fix r
  assume fin: "Number (Limit iop) \<noteq> MaxInt32"
    and rd: "read fuel e fs rReadBuffer hints iop = Returned r"
  let ?sc = "scanLast fuel e fs iop (i32 (RecordLen iop * Number (Limit iop))) readBuffer hints"
  from rd fin assms have
    "(case ?sc of
        Panicked \<Rightarrow> Panicked
      | OutOfFuel \<Rightarrow> OutOfFuel
      | Returned (Inl early) \<Rightarrow> Returned early
      | Returned (Inr sc) \<Rightarrow>
          if RecordType iop = VARIABLE then
            (case readSecondStage e (scMeta sc) of
               (b, Some msg) \<Rightarrow> Returned (failWith (SecondStageError msg) (scHints sc))
             | (b, None) \<Rightarrow>
                 Returned \<lparr>resultBuffer = b, tPrev = scTPrev sc, readErr = None,
                           hintsAfter = scHints sc\<rparr>)
          else Returned \<lparr>resultBuffer = scBuffer sc, tPrev = scTPrev sc,
                  readErr = scErr sc, hintsAfter = scHints sc\<rparr>) = Returned r"
    by (simp add: read_def Let_def)
  then show "readErr r \<noteq> Some ReverseRequiresLimit"
    by (auto simp: failWith_def split: outcome.splits sum.splits if_splits prod.splits option.splits
        dest: scanLast_err scanLast_ok)
qed

theorem read_reverse_requires_limit_witness:
  "Direction (Limit (plan2020 [segment2020 42800 80 True] [] LAST MaxInt32)) = LAST \<and>
   slice readBuffer16 0
     (i32 (RecordsPerRead * RecordLen (plan2020 [segment2020 42800 80 True] [] LAST MaxInt32)))
     = Some readBuffer16 \<and>
   read 2 specEnv disk2020 readBuffer16 Map.empty
     (plan2020 [segment2020 42800 80 True] [] LAST MaxInt32)
     = Returned (failWith ReverseRequiresLimit Map.empty)"
proof -
  let ?p = "plan2020 [segment2020 42800 80 True] [] LAST MaxInt32"
  have d: "Direction (Limit ?p) = LAST"
    by (simp add: plan2020_def)
  have b: "slice readBuffer16 0 (i32 (RecordsPerRead * RecordLen ?p)) = Some readBuffer16"
    by (simp add: plan2020_def slice_def i32_def RecordsPerRead_def readBuffer16_def)
  have n: "Number (Limit ?p) = MaxInt32"
    by (simp add: plan2020_def)
  from read_reverse_requires_limit [OF d b, of 2 specEnv disk2020 Map.empty] n
  have "read 2 specEnv disk2020 readBuffer16 Map.empty ?p
      = Returned (failWith ReverseRequiresLimit Map.empty)"
    by blast
  with d b show ?thesis by blast
qed

section \<open>Record lengths across the files of a plan\<close>

definition recLen :: "QualifiedFile \<Rightarrow> int" where
  "recLen file = GetRecordLength (File file)"

lemma planFile_Inl:
  "planFile e hints pr qf acc = Inl er \<Longrightarrow>
     er = RecordLengthNotConsistent \<and> RecordLen (fst acc) \<noteq> 0 \<and> recLen qf \<noteq> RecordLen (fst acc)"
  unfolding planFile_def Let_def recLen_def
  by (simp split: if_splits)


lemma planFile_total:
  "RecordLen (fst acc) = 0 \<or> recLen qf = RecordLen (fst acc) \<Longrightarrow>
     \<exists>acc'. planFile e hints pr qf acc = Inr acc'"
  unfolding planFile_def Let_def recLen_def
  by (simp split: if_splits) blast

lemma planFile_Inr_first:
  "planFile e hints pr qf acc = Inr acc' \<Longrightarrow> RecordLen (fst acc) = 0 \<Longrightarrow>
        RecordLen (fst acc') = recLen qf \<and> RecordType (fst acc') = GetRecordType (File qf) \<and>
        VariableRecordLen (fst acc') = GetVariableRecordLength (File qf)"
  unfolding planFile_def Let_def recLen_def
  by (simp split: if_splits) (clarsimp+)?

lemma planFile_Inr_later:
  "planFile e hints pr qf acc = Inr acc' \<Longrightarrow> RecordLen (fst acc) \<noteq> 0 \<Longrightarrow>
        recLen qf = RecordLen (fst acc) \<and>
        RecordLen (fst acc') = RecordLen (fst acc) \<and> RecordType (fst acc') = RecordType (fst acc) \<and>
        VariableRecordLen (fst acc') = VariableRecordLen (fst acc)"
  unfolding planFile_def Let_def recLen_def
  by (simp split: if_splits) (clarsimp+)?


lemma planFiles_mismatch:
  assumes "RecordLen (fst acc) \<noteq> 0" and "\<exists>f\<in>set fl. recLen f \<noteq> RecordLen (fst acc)"
  shows "planFiles e hints pr fl acc = Inl RecordLengthNotConsistent"
  using assms
proof (induction fl arbitrary: acc)
  case Nil
  then show ?case by simp
next
  case (Cons qf fl)
  show ?case
  proof (cases "planFile e hints pr qf acc")
    case (Inl er)
    then show ?thesis using planFile_Inl [OF Inl] by simp
  next
    case (Inr acc')
    from planFile_Inr_later [OF Inr Cons.prems(1)] have
      same: "recLen qf = RecordLen (fst acc)" "RecordLen (fst acc') = RecordLen (fst acc)"
      by simp_all
    with Cons.prems have "\<exists>f\<in>set fl. recLen f \<noteq> RecordLen (fst acc')" by auto
    moreover have "RecordLen (fst acc') \<noteq> 0" using same Cons.prems(1) by simp
    ultimately have "planFiles e hints pr fl acc' = Inl RecordLengthNotConsistent"
      by (rule Cons.IH [rotated])
    then show ?thesis using Inr by simp
  qed
qed

lemma planFiles_same:
  assumes "RecordLen (fst acc) \<noteq> 0" and "\<forall>f\<in>set fl. recLen f = RecordLen (fst acc)"
  shows "\<exists>acc'. planFiles e hints pr fl acc = Inr acc' \<and> RecordLen (fst acc') = RecordLen (fst acc)
            \<and> RecordType (fst acc') = RecordType (fst acc)
            \<and> VariableRecordLen (fst acc') = VariableRecordLen (fst acc)"
  using assms
proof (induction fl arbitrary: acc)
  case Nil
  then show ?case by simp
next
  case (Cons qf fl)
  from Cons.prems have "recLen qf = RecordLen (fst acc)" by simp
  then obtain acc1 where a1: "planFile e hints pr qf acc = Inr acc1"
    using planFile_total [of acc qf e hints pr] by blast
  from planFile_Inr_later [OF a1 Cons.prems(1)] have
    keep: "RecordLen (fst acc1) = RecordLen (fst acc)" "RecordType (fst acc1) = RecordType (fst acc)"
      "VariableRecordLen (fst acc1) = VariableRecordLen (fst acc)" by simp_all
  have "RecordLen (fst acc1) \<noteq> 0" using keep Cons.prems(1) by simp
  moreover have "\<forall>f\<in>set fl. recLen f = RecordLen (fst acc1)" using keep Cons.prems(2) by simp
  ultimately obtain acc' where "planFiles e hints pr fl acc1 = Inr acc'"
    "RecordLen (fst acc') = RecordLen (fst acc1)" "RecordType (fst acc') = RecordType (fst acc1)"
    "VariableRecordLen (fst acc') = VariableRecordLen (fst acc1)"
    using Cons.IH [of acc1] by blast
  then show ?case using a1 keep by simp
qed


text \<open>
  C5, as the code has it. \<open>NewIOPlan\<close> compares the record length of every file with
  the one the plan has taken from the first file, and nothing else: for files whose
  record lengths are all non-zero, it fails with \<open>RecordLengthNotConsistent\<close> exactly
  when the lengths are not all the same, and otherwise it returns a plan with the record
  length, the record type and the variable record length of the first file.
\<close>

theorem NewIOPlan_record_length:
  assumes "\<forall>f\<in>set fl. GetRecordLength (File f) \<noteq> 0"
  shows "(if \<forall>f\<in>set fl. GetRecordLength (File f) = GetRecordLength (File (hd fl))
          then \<exists>iop. NewIOPlan e hints fl pr = Inr iop \<and>
                 (fl \<noteq> [] \<longrightarrow> RecordLen iop = GetRecordLength (File (hd fl)) \<and>
                    RecordType iop = GetRecordType (File (hd fl)) \<and>
                    VariableRecordLen iop = GetVariableRecordLength (File (hd fl)))
          else NewIOPlan e hints fl pr = Inl RecordLengthNotConsistent)"
proof (cases fl)
  case Nil
  then show ?thesis by (simp add: NewIOPlan_def)
next
  case (Cons qf rest)
  define acc0 where "acc0 =
     (\<lparr>FilePlan = [], PrevFilePlan = [], RecordLen = 0, RecordType = FIXED,
       VariableRecordLen = 0, Limit = prLimit pr, TimeQuals = []\<rparr>, [] :: ioFilePlan list)"
  have z: "RecordLen (fst acc0) = 0" by (simp add: acc0_def)
  have N: "NewIOPlan e hints fl pr =
     (case planFiles e hints pr fl acc0 of
        Inl er \<Rightarrow> Inl er
      | Inr (iop, prevPaths) \<Rightarrow>
          Inr (iop\<lparr>PrevFilePlan := rev prevPaths, TimeQuals := prTimeQuals pr\<rparr>))"
    by (simp add: NewIOPlan_def acc0_def)
  obtain acc1 where a1: "planFile e hints pr qf acc0 = Inr acc1"
    using planFile_total [of acc0 qf e hints pr] z by blast
  have step: "planFiles e hints pr fl acc0 = planFiles e hints pr rest acc1"
    using Cons a1 by simp
  from planFile_Inr_first [OF a1 z] have
    first: "RecordLen (fst acc1) = recLen qf" "RecordType (fst acc1) = GetRecordType (File qf)"
      "VariableRecordLen (fst acc1) = GetVariableRecordLength (File qf)" by simp_all
  have "recLen qf \<noteq> 0" using assms Cons by (simp add: recLen_def)
  then have nz: "RecordLen (fst acc1) \<noteq> 0" using first(1) by simp
  have hd: "hd fl = qf" using Cons by simp
  show ?thesis
  proof (cases "\<forall>f\<in>set fl. GetRecordLength (File f) = GetRecordLength (File (hd fl))")
    case True
    then have "\<forall>f\<in>set rest. recLen f = RecordLen (fst acc1)"
      using Cons first(1) by (simp add: recLen_def)
    from planFiles_same [OF nz this, of e hints pr] obtain acc' where
      acc': "planFiles e hints pr rest acc1 = Inr acc'"
      and keep: "RecordLen (fst acc') = RecordLen (fst acc1)"
        "RecordType (fst acc') = RecordType (fst acc1)"
        "VariableRecordLen (fst acc') = VariableRecordLen (fst acc1)" by blast
    obtain iop prevPaths where pair: "acc' = (iop, prevPaths)" by (cases acc')
    have res: "NewIOPlan e hints fl pr =
        Inr (iop\<lparr>PrevFilePlan := rev prevPaths, TimeQuals := prTimeQuals pr\<rparr>)"
      by (simp add: N step acc' pair)
    have "RecordLen iop = GetRecordLength (File qf)"
      "RecordType iop = GetRecordType (File qf)"
      "VariableRecordLen iop = GetVariableRecordLength (File qf)"
      using keep first pair by (simp_all add: recLen_def)
    then have "RecordLen (iop\<lparr>PrevFilePlan := rev prevPaths, TimeQuals := prTimeQuals pr\<rparr>)
          = GetRecordLength (File (hd fl)) \<and>
        RecordType (iop\<lparr>PrevFilePlan := rev prevPaths, TimeQuals := prTimeQuals pr\<rparr>)
          = GetRecordType (File (hd fl)) \<and>
        VariableRecordLen (iop\<lparr>PrevFilePlan := rev prevPaths, TimeQuals := prTimeQuals pr\<rparr>)
          = GetVariableRecordLength (File (hd fl))"
      by (simp add: hd)
    with res have ex: "\<exists>p. NewIOPlan e hints fl pr = Inr p \<and>
                 (fl \<noteq> [] \<longrightarrow> RecordLen p = GetRecordLength (File (hd fl)) \<and>
                    RecordType p = GetRecordType (File (hd fl)) \<and>
                    VariableRecordLen p = GetVariableRecordLength (File (hd fl)))"
      by blast
    show ?thesis unfolding if_P [OF True] by (fact ex)
  next
    case False
    then have "\<exists>f\<in>set rest. recLen f \<noteq> RecordLen (fst acc1)"
      using Cons first(1) by (auto simp: recLen_def)
    from planFiles_mismatch [OF nz this, of e hints pr]
    have bad: "NewIOPlan e hints fl pr = Inl RecordLengthNotConsistent"
      by (simp add: N step)
    show ?thesis unfolding if_not_P [OF False] by (fact bad)
  qed
qed


theorem NewIOPlan_record_length_witness:
  "GetRecordLength (File (qfile (daily 2020 ''2020.bin''))) \<noteq> 0 \<and>
   GetRecordLength (File (qfile ((daily 2021 ''2021.bin'')\<lparr>GetRecordLength := 24\<rparr>))) \<noteq> 0 \<and>
   NewIOPlan specEnv Map.empty
     [qfile (daily 2020 ''2020.bin''),
      qfile ((daily 2021 ''2021.bin'')\<lparr>GetRecordLength := 24\<rparr>)]
     (rangeQuery 1609027200 1609545600 FIRST 10) = Inl RecordLengthNotConsistent"
proof -
  let ?fl = "[qfile (daily 2020 ''2020.bin''),
      qfile ((daily 2021 ''2021.bin'')\<lparr>GetRecordLength := 24\<rparr>)]"
  have nz: "\<forall>f\<in>set ?fl. GetRecordLength (File f) \<noteq> 0"
    by (simp add: qfile_def daily_def)
  have diff: "\<not> (\<forall>f\<in>set ?fl. GetRecordLength (File f) = GetRecordLength (File (hd ?fl)))"
    by (simp add: qfile_def daily_def)
  from NewIOPlan_record_length [OF nz, of specEnv Map.empty "rangeQuery 1609027200 1609545600 FIRST 10"]
  have "NewIOPlan specEnv Map.empty ?fl (rangeQuery 1609027200 1609545600 FIRST 10)
      = Inl RecordLengthNotConsistent"
    unfolding if_not_P [OF diff] .
  then show ?thesis by (simp add: qfile_def daily_def)
qed

text \<open>
  C5, as the claim has it, fails: two files with the same record length, one FIXED and
  one VARIABLE with another variable record length, make a plan.
\<close>

theorem NewIOPlan_mixed_types_counterexample:
  "GetRecordType (daily 2020 ''2020.bin'') \<noteq>
     GetRecordType ((daily 2021 ''2021.bin'')\<lparr>GetRecordType := VARIABLE, GetVariableRecordLength := 4\<rparr>) \<and>
   NewIOPlan specEnv Map.empty
     [qfile (daily 2020 ''2020.bin''),
      qfile ((daily 2021 ''2021.bin'')\<lparr>GetRecordType := VARIABLE,
                   GetVariableRecordLength := 4\<rparr>)]
     (rangeQuery 1609027200 1609545600 FIRST 10) \<noteq> Inl RecordLengthNotConsistent"
  by (simp add: NewIOPlan_def planFile_def Let_def qfile_def daily_def rangeQuery_def
      specEnv_def yearOfEpoch_def)

section \<open>The order of the buffer metadata after a reverse scan\<close>

text \<open>
  C3 fails on the code. The loop copies the first half of the list over the second half
  and never writes the first half: for two entries, appended as newest then oldest, the
  list ends as newest, newest, which is not the reversal.
\<close>

definition metaOf :: "string \<Rightarrow> bytes \<Rightarrow> bufferMeta" where
  "metaOf p d = \<lparr>bmFullPath = p, Data = d, VarRecLen = 4, Intervals = 1\<rparr>"

theorem reverseMeta_not_reversed:
  "reverseMeta [metaOf ''2021.bin'' [2], metaOf ''2020.bin'' [1]] 0
     = [metaOf ''2021.bin'' [2], metaOf ''2021.bin'' [2]] \<and>
   reverseMeta [metaOf ''2021.bin'' [2], metaOf ''2020.bin'' [1]] 0
     \<noteq> rev [metaOf ''2021.bin'' [2], metaOf ''2020.bin'' [1]]"
  by (simp add: reverseMeta.simps metaOf_def)

section \<open>The read hint and the result of a reverse scan\<close>

text \<open>
  C6 fails on the code. The daily file of 2020 has its last five slots populated
  (27 to 31 December). The query is the last two records of those five days. The first
  run, with an empty hint cache, returns the records of 30 and 31 December and
  \<open>tPrev\<close> of 29 December, and publishes as last known offset the offset of the first
  populated slot of the window, 27 December (42800). The second run of the same query
  finds that hint, plans 16 bytes only, and returns no record and \<open>tPrev\<close> of
  27 December.
\<close>

theorem read_hint_changes_result:
  "NewIOPlan specEnv Map.empty [qfile (daily 2020 ''2020.bin'')]
     (rangeQuery 1609027200 1609372800 LAST 2)
     = Inr (plan2020 [segment2020 42800 80 True] [segment2020 37024 5776 False] LAST 2) \<and>
   read (Suc (Suc 0)) specEnv disk2020 readBuffer16 Map.empty
     (plan2020 [segment2020 42800 80 True] [segment2020 37024 5776 False] LAST 2)
     = Returned
         \<lparr>resultBuffer = Some [0, 195, 235, 95, 0, 0, 0, 0, 4, 4, 4, 4, 4, 4, 4, 4,
                              128, 20, 237, 95, 0, 0, 0, 0, 5, 5, 5, 5, 5, 5, 5, 5],
          tPrev = 1609200000, readErr = None, hintsAfter = [''2020.bin'' \<mapsto> 42800]\<rparr> \<and>
   NewIOPlan specEnv [''2020.bin'' \<mapsto> 42800] [qfile (daily 2020 ''2020.bin'')]
     (rangeQuery 1609027200 1609372800 LAST 2)
     = Inr (plan2020 [segment2020 42800 16 True] [segment2020 37024 5776 False] LAST 2) \<and>
   read (Suc (Suc 0)) specEnv disk2020 readBuffer16 [''2020.bin'' \<mapsto> 42800]
     (plan2020 [segment2020 42800 16 True] [segment2020 37024 5776 False] LAST 2)
     = Returned
         \<lparr>resultBuffer = Some [], tPrev = 1609027200, readErr = None,
          hintsAfter = [''2020.bin'' \<mapsto> 42864]\<rparr>"
  by (simp add: eval_simps)

section \<open>An error of the forward scan\<close>

lemma le_uint_zeros: "le_uint (replicate n 0) = 0"
  by (induction n) simp_all

text \<open>
  C4 fails on the code. The query covers 31 December 2020 and 1 January 2021. The forward
  scan packs the record of 31 December from the file of 2020, then meets the file of 2021,
  which ends three bytes after its header: the packing reader reports a short read. The
  loop over the segments does not look at the error, the walk over the prior segments
  finds 30 December, and \<open>read\<close> returns the record of 31 December together with the
  error.
\<close>

theorem read_forward_returns_data_with_error:
  "NewIOPlan specEnv Map.empty
     [qfile (daily 2020 ''2020.bin''), qfile (daily 2021 ''2021.bin'')]
     (rangeQuery 1609372800 1609459200 FIRST 10)
     = Inr (plan2020 [segment2020 42864 16 False, segment2021 37024 16 False]
              [segment2020 37024 5840 False] FIRST 10) \<and>
   read (Suc (Suc 0)) specEnv disk2021 readBuffer16 Map.empty
     (plan2020 [segment2020 42864 16 False, segment2021 37024 16 False]
        [segment2020 37024 5840 False] FIRST 10)
     = Returned
         \<lparr>resultBuffer = Some [128, 20, 237, 95, 0, 0, 0, 0, 5, 5, 5, 5, 5, 5, 5, 5],
          tPrev = 1609286400, readErr = Some (ShortRead 3 16), hintsAfter = Map.empty\<rparr>"
  by (simp add: eval_simps le_uint_zeros)

end
